theory Spec2Isabelle
  imports Main "HOL-Library.Word"
begin

section \<open>Data model\<close>

type_synonym bytes = "8 word list"

text \<open>
  One entry of a call's trailing metadata: \<^verbatim>\<open>metadata.key\<close> (a Python \<^verbatim>\<open>str\<close>)
  and \<^verbatim>\<open>metadata.value\<close> (the \<^verbatim>\<open>bytes\<close> of a binary entry), here the field
  \<open>val\<close>.
\<close>

record metadatum =
  key :: string
  val :: bytes

text \<open>
  A \<^verbatim>\<open>grpc.Call\<close>: the only member the function reads is
  \<^verbatim>\<open>trailing_metadata()\<close>, an ordered sequence. Whatever else the object carries
  (status code, details, initial metadata) lives in the record's extension.
\<close>

record call =
  trailing_metadata :: "metadatum list"

text \<open>
  The argument \<^verbatim>\<open>e\<close>: either an object for which
  \<^verbatim>\<open>isinstance(e, grpc.Call)\<close> holds, or any other object.
\<close>

datatype ('o, 'c) rpc_exception =
    Other 'o
  | Call "'c call_scheme"

text \<open>
  Modelled from the spec: the message type \<^verbatim>\<open>RpcErrorPayload\<close> is generated from a
  schema that is not part of the source file. The spec gives the one field path the
  function follows, \<^verbatim>\<open>rpc_error.compressed_exception_detail.compressed_data\<close>,
  ending in a byte blob.
\<close>

record CompressedExceptionDetail =
  compressed_data :: bytes

record RpcError =
  compressed_exception_detail :: CompressedExceptionDetail

record RpcErrorPayload =
  rpc_error :: RpcError

text \<open>
  The default-valued message: what the empty byte string parses to, with the blob empty.
\<close>

definition default_RpcErrorPayload :: RpcErrorPayload where
  "default_RpcErrorPayload =
     \<lparr>rpc_error = \<lparr>compressed_exception_detail = \<lparr>compressed_data = []\<rparr>\<rparr>\<rparr>"

text \<open>
  The two exceptions the function lets through:
  \<^verbatim>\<open>google.protobuf.message.DecodeError\<close> from either \<^verbatim>\<open>FromString\<close>, and
  \<^verbatim>\<open>zlib.error\<close> from \<^verbatim>\<open>zlib.decompress\<close>.
\<close>

datatype error = DecodeError | ZlibError

text \<open>
  The library calls of the function, taken as parameters: the protobuf runtime
  (\<^verbatim>\<open>RpcErrorPayload.FromString\<close>, \<^verbatim>\<open>ExceptionDetail.FromString\<close>, and the truth value
  Python gives a parsed message in \<^verbatim>\<open>if error_info:\<close>) and \<^verbatim>\<open>zlib.decompress\<close>.
  A call that raises is \<open>None\<close>. The type \<open>'d\<close> is the message type
  \<^verbatim>\<open>ExceptionDetail\<close>, whose fields the function never reads. The protobuf
  \<^verbatim>\<open>Message\<close> class defines neither \<^verbatim>\<open>__bool__\<close> nor \<^verbatim>\<open>__len__\<close>, so Python
  takes every parsed message, the default one included, as true.
\<close>

record 'd runtime =
  RpcErrorPayload_FromString :: "bytes \<Rightarrow> RpcErrorPayload option"
  message_bool :: "RpcErrorPayload \<Rightarrow> bool"
  zlib_decompress :: "bytes \<Rightarrow> bytes option"
  ExceptionDetail_FromString :: "bytes \<Rightarrow> 'd option"

section \<open>The function\<close>

definition EXCEPTION_KEY :: string where
  "EXCEPTION_KEY = ''__crpc_mse_300713958-bin''"

text \<open>
  The \<^verbatim>\<open>for\<close> loop over the trailing metadata, with the local variable
  \<^verbatim>\<open>error_info\<close> as accumulator. Every entry whose key equals the constant has its
  value parsed at once; a parse that raises ends the loop and the call.
\<close>

fun scan_trailing_metadata ::
  "'d runtime \<Rightarrow> RpcErrorPayload option \<Rightarrow> metadatum list \<Rightarrow> error + RpcErrorPayload option"
where
  "scan_trailing_metadata rt error_info [] = Inr error_info"
| "scan_trailing_metadata rt error_info (metadata # rest) =
     (if key metadata = EXCEPTION_KEY then
        (case RpcErrorPayload_FromString rt (val metadata) of
           None \<Rightarrow> Inl DecodeError
         | Some parsed \<Rightarrow> scan_trailing_metadata rt (Some parsed) rest)
      else scan_trailing_metadata rt error_info rest)"

text \<open>
  The block under \<^verbatim>\<open>if error_info:\<close>. \<open>None\<close> is falsy; a parsed message has the
  truth value the runtime gives it.
\<close>

definition decode_error_info ::
  "'d runtime \<Rightarrow> RpcErrorPayload option \<Rightarrow> error + 'd option"
where
  "decode_error_info rt error_info =
     (case error_info of
        None \<Rightarrow> Inr None
      | Some info \<Rightarrow>
          if message_bool rt info then
            (case zlib_decompress rt
                    (compressed_data (compressed_exception_detail (rpc_error info))) of
               None \<Rightarrow> Inl ZlibError
             | Some raw \<Rightarrow>
                 (case ExceptionDetail_FromString rt raw of
                    None \<Rightarrow> Inl DecodeError
                  | Some exception_detail \<Rightarrow> Inr (Some exception_detail)))
          else Inr None)"

definition to_exception_detail ::
  "'d runtime \<Rightarrow> ('o, 'c) rpc_exception \<Rightarrow> error + 'd option"
where
  "to_exception_detail rt e =
     (case e of
        Other x \<Rightarrow> Inr None
      | Call c \<Rightarrow>
          (case scan_trailing_metadata rt None (trailing_metadata c) of
             Inl err \<Rightarrow> Inl err
           | Inr error_info \<Rightarrow> decode_error_info rt error_info))"

text \<open>The entries of a metadata sequence whose key is the constant, in order.\<close>

definition matching :: "metadatum list \<Rightarrow> metadatum list" where
  "matching ms = filter (\<lambda>m. key m = EXCEPTION_KEY) ms"

section \<open>A fake runtime for concrete runs\<close>

text \<open>
  A test double for the two libraries, in the manner of a unit test's fakes. It is used
  only to run the function on concrete inputs; every general theorem below holds for an
  arbitrary runtime.
  \<^item> A payload is written as the byte \<open>0x0A\<close> followed by its blob; the empty byte string
    parses to the default payload (empty blob); anything else is malformed.
  \<^item> Every parsed payload is truthy, the default one included, as every protobuf
    message is.
  \<^item> A compressed stream is the byte \<open>0x78\<close> followed by the data; anything else is corrupt.
  \<^item> An exception detail is its own bytes; bytes that start with \<open>0xFF\<close> are malformed.
\<close>

definition fake_payload :: "bytes \<Rightarrow> RpcErrorPayload" where
  "fake_payload blob =
     \<lparr>rpc_error = \<lparr>compressed_exception_detail = \<lparr>compressed_data = blob\<rparr>\<rparr>\<rparr>"

definition fake_runtime :: "bytes runtime" where
  "fake_runtime =
     \<lparr>RpcErrorPayload_FromString =
        (\<lambda>bs. case bs of
                [] \<Rightarrow> Some (fake_payload [])
              | t # rest \<Rightarrow> if t = 0x0A then Some (fake_payload rest) else None),
      message_bool = (\<lambda>p. True),
      zlib_decompress =
        (\<lambda>bs. case bs of
                [] \<Rightarrow> None
              | h # rest \<Rightarrow> if h = 0x78 then Some rest else None),
      ExceptionDetail_FromString =
        (\<lambda>bs. case bs of
                [] \<Rightarrow> Some []
              | h # rest \<Rightarrow> if h = 0xFF then None else Some bs)\<rparr>"

text \<open>An entry under the fixed key, and a call object with nothing but its metadata.\<close>

definition entry :: "bytes \<Rightarrow> metadatum" where
  "entry v = \<lparr>key = EXCEPTION_KEY, val = v\<rparr>"

definition fake_call :: "metadatum list \<Rightarrow> (unit, unit) rpc_exception" where
  "fake_call ms = Call \<lparr>trailing_metadata = ms\<rparr>"

lemmas fake_simps =
  fake_payload_def default_RpcErrorPayload_def fake_runtime_def entry_def fake_call_def
  to_exception_detail_def decode_error_info_def EXCEPTION_KEY_def matching_def

section \<open>The scan\<close>

lemma matching_Nil: "matching [] = []"
  by (simp add: matching_def)

lemma matching_Cons:
  "matching (m # ms) = (if key m = EXCEPTION_KEY then m # matching ms else matching ms)"
  by (simp add: matching_def)

lemma set_matching: "set (matching ms) = {m \<in> set ms. key m = EXCEPTION_KEY}"
  by (simp add: matching_def)

text \<open>Entries under other keys leave the loop's variable alone.\<close>

lemma scan_matching:
  "scan_trailing_metadata rt acc ms = scan_trailing_metadata rt acc (matching ms)"
proof (induction ms arbitrary: acc)
  case Nil
  show ?case by (simp add: matching_Nil)
next
  case (Cons m ms)
  show ?case
  proof (cases "key m = EXCEPTION_KEY")
    case True
    then show ?thesis
      using Cons.IH by (simp add: matching_Cons split: option.splits)
  next
    case False
    then show ?thesis
      using Cons.IH by (simp add: matching_Cons)
  qed
qed

lemma scan_append:
  "scan_trailing_metadata rt acc (xs @ ys) =
     (case scan_trailing_metadata rt acc xs of
        Inl err \<Rightarrow> Inl err
      | Inr acc' \<Rightarrow> scan_trailing_metadata rt acc' ys)"
  by (induction xs arbitrary: acc) (auto split: option.splits)

text \<open>One matching value that does not parse is enough to end the call.\<close>

lemma scan_parse_failure:
  "m \<in> set ms \<Longrightarrow> key m = EXCEPTION_KEY \<Longrightarrow>
   RpcErrorPayload_FromString rt (val m) = None \<Longrightarrow>
   scan_trailing_metadata rt acc ms = Inl DecodeError"
proof (induction ms arbitrary: acc)
  case Nil
  then show ?case by simp
next
  case (Cons a ms)
  show ?case
  proof (cases "a = m")
    case True
    with Cons.prems show ?thesis by simp
  next
    case False
    with Cons.prems have "m \<in> set ms" by simp
    then have "\<And>acc'. scan_trailing_metadata rt acc' ms = Inl DecodeError"
      using Cons.IH Cons.prems(2,3) by blast
    then show ?thesis by (simp split: option.splits)
  qed
qed

text \<open>When every matching value parses, the loop ends with the last one's payload.\<close>

lemma scan_all_matching_parse:
  "\<forall>m \<in> set ms. key m = EXCEPTION_KEY \<longrightarrow> RpcErrorPayload_FromString rt (val m) \<noteq> None \<Longrightarrow>
   scan_trailing_metadata rt acc ms =
     Inr (if matching ms = [] then acc
          else RpcErrorPayload_FromString rt (val (last (matching ms))))"
proof (induction ms arbitrary: acc)
  case Nil
  show ?case by (simp add: matching_Nil)
next
  case (Cons a ms)
  have rest:
    "\<forall>m \<in> set ms. key m = EXCEPTION_KEY \<longrightarrow> RpcErrorPayload_FromString rt (val m) \<noteq> None"
    using Cons.prems by simp
  show ?case
  proof (cases "key a = EXCEPTION_KEY")
    case True
    with Cons.prems obtain p where p: "RpcErrorPayload_FromString rt (val a) = Some p"
      by auto
    show ?thesis
      using True p Cons.IH [OF rest, of "Some p"] by (simp add: matching_Cons)
  next
    case False
    then show ?thesis
      using Cons.IH [OF rest, of acc] by (simp add: matching_Cons)
  qed
qed

lemma scan_last_alone:
  assumes "matching ms = earlier @ [m]"
    and "\<forall>x \<in> set earlier. RpcErrorPayload_FromString rt (val x) \<noteq> None"
  shows "scan_trailing_metadata rt acc ms = scan_trailing_metadata rt None [m]"
proof -
  have km: "key m = EXCEPTION_KEY"
  proof -
    have "m \<in> set (matching ms)" using assms(1) by simp
    then show ?thesis by (simp add: set_matching)
  qed
  have "scan_trailing_metadata rt acc ms = scan_trailing_metadata rt acc (earlier @ [m])"
    using scan_matching [of rt acc ms] assms(1) by simp
  moreover have "\<exists>acc'. scan_trailing_metadata rt acc earlier = Inr acc'"
    using scan_all_matching_parse [of earlier rt acc] assms(2) by simp
  ultimately show ?thesis
    using km by (auto simp: scan_append split: option.splits)
qed

lemma last_matching_key:
  "matching ms = earlier @ [m] \<Longrightarrow> key m = EXCEPTION_KEY"
proof -
  assume "matching ms = earlier @ [m]"
  then have "m \<in> set (matching ms)" by simp
  then show ?thesis by (simp add: set_matching)
qed

section \<open>Absent results\<close>

text \<open>
  C2. An argument that is not a \<^verbatim>\<open>grpc.Call\<close> (it does not expose trailing metadata)
  yields the absent result \<^verbatim>\<open>None\<close>, whatever the object is; no exception is raised.
\<close>

theorem to_exception_detail_not_a_call:
  "to_exception_detail rt (Other x) = Inr None"
  by (simp add: to_exception_detail_def)

text \<open>
  C3. A call whose trailing metadata has no entry with key exactly
  \<^verbatim>\<open>'__crpc_mse_300713958-bin'\<close> yields the absent result \<^verbatim>\<open>None\<close>.
\<close>

theorem to_exception_detail_no_matching_key:
  assumes "\<forall>m \<in> set (trailing_metadata c). key m \<noteq> EXCEPTION_KEY"
  shows "to_exception_detail rt (Call c) = Inr None"
proof -
  have "matching (trailing_metadata c) = []"
    using assms by (simp add: matching_def)
  then have "scan_trailing_metadata rt None (trailing_metadata c) = Inr None"
    using scan_matching [of rt None "trailing_metadata c"] by simp
  then show ?thesis
    by (simp add: to_exception_detail_def decode_error_info_def)
qed

theorem to_exception_detail_no_matching_key_witness:
  "key \<lparr>key = ''grpc-status-details-bin'', val = [0x0A, 0x78, 0x62]\<rparr> \<noteq> EXCEPTION_KEY
   \<and> key \<lparr>key = ''__crpc_mse_300713958'', val = [0xFF]\<rparr> \<noteq> EXCEPTION_KEY
   \<and> to_exception_detail fake_runtime
        (fake_call [\<lparr>key = ''grpc-status-details-bin'', val = [0x0A, 0x78, 0x62]\<rparr>,
                    \<lparr>key = ''__crpc_mse_300713958'', val = [0xFF]\<rparr>]) = Inr None"
proof -
  let ?a = "\<lparr>key = ''grpc-status-details-bin'', val = [0x0A, 0x78, 0x62]\<rparr>"
  let ?b = "\<lparr>key = ''__crpc_mse_300713958'', val = [0xFF]\<rparr>"
  have ka: "key ?a \<noteq> EXCEPTION_KEY" and kb: "key ?b \<noteq> EXCEPTION_KEY"
    by (simp_all add: EXCEPTION_KEY_def)
  have h: "\<forall>m \<in> set (trailing_metadata \<lparr>trailing_metadata = [?a, ?b]\<rparr>).
            key m \<noteq> EXCEPTION_KEY"
    using ka kb by simp
  have "to_exception_detail fake_runtime
          (Call \<lparr>trailing_metadata = [?a, ?b]\<rparr> :: (unit, unit) rpc_exception) = Inr None"
    by (rule to_exception_detail_no_matching_key [OF h])
  then show ?thesis
    using ka kb by (simp add: fake_call_def)
qed

section \<open>The round trip\<close>

text \<open>
  C1. Let the trailing metadata hold exactly one entry under the fixed key, let its value
  be a serialized \<^verbatim>\<open>RpcErrorPayload\<close> (it parses to \<open>payload\<close>), and let the blob at
  \<^verbatim>\<open>rpc_error.compressed_exception_detail.compressed_data\<close> be the compression of a
  serialized \<^verbatim>\<open>ExceptionDetail\<close> \<open>D\<close> (it decompresses to bytes that parse to \<open>D\<close>).
  Then the function returns \<open>D\<close>. A payload that carries a blob passes the truth test
  \<^verbatim>\<open>if error_info:\<close>; the third hypothesis says so for the runtime at hand.
\<close>

theorem to_exception_detail_round_trip:
  assumes "matching (trailing_metadata c) = [m]"
    and "RpcErrorPayload_FromString rt (val m) = Some payload"
    and "message_bool rt payload"
    and "zlib_decompress rt
           (compressed_data (compressed_exception_detail (rpc_error payload))) = Some raw"
    and "ExceptionDetail_FromString rt raw = Some D"
  shows "to_exception_detail rt (Call c) = Inr (Some D)"
proof -
  have one: "matching (trailing_metadata c) = [] @ [m]"
    using assms(1) by simp
  have none: "\<forall>x \<in> set ([] :: metadatum list). RpcErrorPayload_FromString rt (val x) \<noteq> None"
    by simp
  have "scan_trailing_metadata rt None (trailing_metadata c) =
          scan_trailing_metadata rt None [m]"
    by (rule scan_last_alone [OF one none])
  also have "\<dots> = Inr (Some payload)"
    using last_matching_key [OF one] assms(2) by simp
  finally show ?thesis
    using assms(3,4,5) by (simp add: to_exception_detail_def decode_error_info_def)
qed

theorem to_exception_detail_round_trip_witness:
  "matching [\<lparr>key = ''content-type'', val = []\<rparr>, entry [0x0A, 0x78, 0x62, 0x6F, 0x6F, 0x6D]]
     = [entry [0x0A, 0x78, 0x62, 0x6F, 0x6F, 0x6D]]
   \<and> RpcErrorPayload_FromString fake_runtime (val (entry [0x0A, 0x78, 0x62, 0x6F, 0x6F, 0x6D]))
     = Some (fake_payload [0x78, 0x62, 0x6F, 0x6F, 0x6D])
   \<and> message_bool fake_runtime (fake_payload [0x78, 0x62, 0x6F, 0x6F, 0x6D])
   \<and> zlib_decompress fake_runtime
        (compressed_data (compressed_exception_detail
           (rpc_error (fake_payload [0x78, 0x62, 0x6F, 0x6F, 0x6D]))))
     = Some [0x62, 0x6F, 0x6F, 0x6D]
   \<and> ExceptionDetail_FromString fake_runtime [0x62, 0x6F, 0x6F, 0x6D]
     = Some [0x62, 0x6F, 0x6F, 0x6D]
   \<and> to_exception_detail fake_runtime
        (fake_call [\<lparr>key = ''content-type'', val = []\<rparr>,
                    entry [0x0A, 0x78, 0x62, 0x6F, 0x6F, 0x6D]])
     = Inr (Some [0x62, 0x6F, 0x6F, 0x6D])"
proof -
  let ?good = "[0x0A, 0x78, 0x62, 0x6F, 0x6F, 0x6D] :: bytes"
  let ?c = "\<lparr>trailing_metadata = [\<lparr>key = ''content-type'', val = []\<rparr>, entry ?good]\<rparr>"
  have h1: "matching (trailing_metadata ?c) = [entry ?good]"
    by (simp add: matching_def entry_def EXCEPTION_KEY_def)
  have h2: "RpcErrorPayload_FromString fake_runtime (val (entry ?good))
              = Some (fake_payload [0x78, 0x62, 0x6F, 0x6F, 0x6D])"
    by (simp add: fake_runtime_def entry_def)
  have h3: "message_bool fake_runtime (fake_payload [0x78, 0x62, 0x6F, 0x6F, 0x6D])"
    by (simp add: fake_runtime_def fake_payload_def)
  have h4: "zlib_decompress fake_runtime
              (compressed_data (compressed_exception_detail
                 (rpc_error (fake_payload [0x78, 0x62, 0x6F, 0x6F, 0x6D]))))
              = Some [0x62, 0x6F, 0x6F, 0x6D]"
    by (simp add: fake_runtime_def fake_payload_def)
  have h5: "ExceptionDetail_FromString fake_runtime [0x62, 0x6F, 0x6F, 0x6D]
              = Some [0x62, 0x6F, 0x6F, 0x6D]"
    by (simp add: fake_runtime_def)
  have "to_exception_detail fake_runtime (Call ?c :: (unit, unit) rpc_exception)
          = Inr (Some [0x62, 0x6F, 0x6F, 0x6D])"
    by (rule to_exception_detail_round_trip [OF h1 h2 h3 h4 h5])
  then show ?thesis
    using h1 h2 h3 h4 h5 by (simp add: fake_call_def)
qed

section \<open>Failures that propagate\<close>

text \<open>
  C6. If the trailing metadata has an entry under the fixed key whose value does not
  parse as an \<^verbatim>\<open>RpcErrorPayload\<close>, the function raises the decode failure
  (\<^verbatim>\<open>DecodeError\<close>); it does not return \<^verbatim>\<open>None\<close>.
\<close>

theorem malformed_payload_propagates:
  assumes "m \<in> set (trailing_metadata c)"
    and "key m = EXCEPTION_KEY"
    and "RpcErrorPayload_FromString rt (val m) = None"
  shows "to_exception_detail rt (Call c) = Inl DecodeError"
proof -
  have "scan_trailing_metadata rt None (trailing_metadata c) = Inl DecodeError"
    by (rule scan_parse_failure [OF assms])
  then show ?thesis
    by (simp add: to_exception_detail_def)
qed

theorem malformed_payload_propagates_witness:
  "entry [0xDE, 0xAD, 0xBE, 0xEF] \<in> set [\<lparr>key = ''user-agent'', val = [0x67]\<rparr>,
                                        entry [0xDE, 0xAD, 0xBE, 0xEF]]
   \<and> key (entry [0xDE, 0xAD, 0xBE, 0xEF]) = EXCEPTION_KEY
   \<and> RpcErrorPayload_FromString fake_runtime (val (entry [0xDE, 0xAD, 0xBE, 0xEF])) = None
   \<and> to_exception_detail fake_runtime
        (fake_call [\<lparr>key = ''user-agent'', val = [0x67]\<rparr>, entry [0xDE, 0xAD, 0xBE, 0xEF]])
     = Inl DecodeError"
proof -
  let ?m = "entry [0xDE, 0xAD, 0xBE, 0xEF]"
  let ?c = "\<lparr>trailing_metadata = [\<lparr>key = ''user-agent'', val = [0x67]\<rparr>, ?m]\<rparr>"
  have h1: "?m \<in> set (trailing_metadata ?c)"
    by simp
  have h2: "key ?m = EXCEPTION_KEY"
    by (simp add: entry_def)
  have h3: "RpcErrorPayload_FromString fake_runtime (val ?m) = None"
    by (simp add: fake_runtime_def entry_def)
  have "to_exception_detail fake_runtime (Call ?c :: (unit, unit) rpc_exception)
          = Inl DecodeError"
    by (rule malformed_payload_propagates [OF h1 h2 h3])
  then show ?thesis
    using h1 h2 h3 by (simp add: fake_call_def)
qed

text \<open>
  C7. Let the matching entry the function ends up with (the only one, or the last of
  several whose earlier ones all parse) hold a value that parses as an
  \<^verbatim>\<open>RpcErrorPayload\<close>, a payload that passes the truth test \<^verbatim>\<open>if error_info:\<close>, and
  let its blob not be a valid compressed stream (\<^verbatim>\<open>zlib.decompress\<close> raises). Then the
  function raises the decompression failure (\<^verbatim>\<open>zlib.error\<close>); it does not return
  \<^verbatim>\<open>None\<close>.
\<close>

theorem decompression_failure_propagates:
  assumes "matching (trailing_metadata c) = earlier @ [m]"
    and "\<forall>x \<in> set earlier. RpcErrorPayload_FromString rt (val x) \<noteq> None"
    and "RpcErrorPayload_FromString rt (val m) = Some payload"
    and "message_bool rt payload"
    and "zlib_decompress rt
           (compressed_data (compressed_exception_detail (rpc_error payload))) = None"
  shows "to_exception_detail rt (Call c) = Inl ZlibError"
proof -
  have "scan_trailing_metadata rt None (trailing_metadata c) =
          scan_trailing_metadata rt None [m]"
    by (rule scan_last_alone [OF assms(1,2)])
  also have "\<dots> = Inr (Some payload)"
    using last_matching_key [OF assms(1)] assms(3) by simp
  finally show ?thesis
    using assms(4,5) by (simp add: to_exception_detail_def decode_error_info_def)
qed

theorem decompression_failure_propagates_witness:
  "matching [entry [0x0A, 0x78, 0x01], \<lparr>key = ''date'', val = []\<rparr>, entry [0x0A, 0x9C, 0x4B]]
     = [entry [0x0A, 0x78, 0x01]] @ [entry [0x0A, 0x9C, 0x4B]]
   \<and> RpcErrorPayload_FromString fake_runtime (val (entry [0x0A, 0x78, 0x01])) \<noteq> None
   \<and> RpcErrorPayload_FromString fake_runtime (val (entry [0x0A, 0x9C, 0x4B]))
     = Some (fake_payload [0x9C, 0x4B])
   \<and> message_bool fake_runtime (fake_payload [0x9C, 0x4B])
   \<and> zlib_decompress fake_runtime
        (compressed_data (compressed_exception_detail (rpc_error (fake_payload [0x9C, 0x4B]))))
     = None
   \<and> to_exception_detail fake_runtime
        (fake_call [entry [0x0A, 0x78, 0x01], \<lparr>key = ''date'', val = []\<rparr>,
                    entry [0x0A, 0x9C, 0x4B]])
     = Inl ZlibError"
proof -
  let ?first = "entry [0x0A, 0x78, 0x01]"
  let ?m = "entry [0x0A, 0x9C, 0x4B]"
  let ?c = "\<lparr>trailing_metadata = [?first, \<lparr>key = ''date'', val = []\<rparr>, ?m]\<rparr>"
  have h1: "matching (trailing_metadata ?c) = [?first] @ [?m]"
    by (simp add: matching_def entry_def EXCEPTION_KEY_def)
  have p1: "RpcErrorPayload_FromString fake_runtime (val ?first) \<noteq> None"
    by (simp add: fake_runtime_def entry_def)
  have h2: "\<forall>x \<in> set [?first]. RpcErrorPayload_FromString fake_runtime (val x) \<noteq> None"
    using p1 by simp
  have h3: "RpcErrorPayload_FromString fake_runtime (val ?m) = Some (fake_payload [0x9C, 0x4B])"
    by (simp add: fake_runtime_def entry_def)
  have h4: "message_bool fake_runtime (fake_payload [0x9C, 0x4B])"
    by (simp add: fake_runtime_def fake_payload_def)
  have h5: "zlib_decompress fake_runtime
              (compressed_data (compressed_exception_detail
                 (rpc_error (fake_payload [0x9C, 0x4B])))) = None"
    by (simp add: fake_runtime_def fake_payload_def)
  have "to_exception_detail fake_runtime (Call ?c :: (unit, unit) rpc_exception)
          = Inl ZlibError"
    by (rule decompression_failure_propagates [OF h1 h2 h3 h4 h5])
  then show ?thesis
    using h1 p1 h3 h4 h5 by (simp add: fake_call_def)
qed

section \<open>What the result depends on\<close>

text \<open>
  C9. Key matching is exact: an entry whose key is not the constant
  \<^verbatim>\<open>'__crpc_mse_300713958-bin'\<close>, character for character, is not a match, wherever it
  stands in the sequence and whatever its value; the outcome is the one the sequence
  without that entry gives.
\<close>

theorem non_matching_entry_ignored:
  assumes "key m \<noteq> EXCEPTION_KEY"
  shows "to_exception_detail rt (Call (c\<lparr>trailing_metadata := before @ m # after\<rparr>)) =
         to_exception_detail rt (Call (c\<lparr>trailing_metadata := before @ after\<rparr>))"
proof -
  have "matching (before @ m # after) = matching (before @ after)"
    using assms by (simp add: matching_def)
  then have "scan_trailing_metadata rt None (before @ m # after) =
             scan_trailing_metadata rt None (before @ after)"
    using scan_matching [of rt None "before @ m # after"]
          scan_matching [of rt None "before @ after"] by simp
  then show ?thesis
    by (simp add: to_exception_detail_def)
qed

theorem non_matching_entry_ignored_witness:
  "key \<lparr>key = ''__CRPC_MSE_300713958-BIN'', val = [0xFF]\<rparr> \<noteq> EXCEPTION_KEY
   \<and> key \<lparr>key = ''x__crpc_mse_300713958-bin'', val = [0xFF]\<rparr> \<noteq> EXCEPTION_KEY
   \<and> key \<lparr>key = ''__crpc_mse_300713958-bin2'', val = [0xFF]\<rparr> \<noteq> EXCEPTION_KEY
   \<and> to_exception_detail fake_runtime
        (fake_call [\<lparr>key = ''__CRPC_MSE_300713958-BIN'', val = [0xFF]\<rparr>,
                    entry [0x0A, 0x78, 0x6F, 0x6B],
                    \<lparr>key = ''x__crpc_mse_300713958-bin'', val = [0xFF]\<rparr>,
                    \<lparr>key = ''__crpc_mse_300713958-bin2'', val = [0xFF]\<rparr>])
     = to_exception_detail fake_runtime (fake_call [entry [0x0A, 0x78, 0x6F, 0x6B]])
   \<and> to_exception_detail fake_runtime (fake_call [entry [0x0A, 0x78, 0x6F, 0x6B]])
     = Inr (Some [0x6F, 0x6B])"
proof -
  let ?upper = "\<lparr>key = ''__CRPC_MSE_300713958-BIN'', val = [0xFF]\<rparr>"
  let ?pre = "\<lparr>key = ''x__crpc_mse_300713958-bin'', val = [0xFF]\<rparr>"
  let ?suf = "\<lparr>key = ''__crpc_mse_300713958-bin2'', val = [0xFF]\<rparr>"
  let ?ok = "entry [0x0A, 0x78, 0x6F, 0x6B]"
  let ?c = "\<lparr>trailing_metadata = []\<rparr>"
  have k1: "key ?upper \<noteq> EXCEPTION_KEY" and k2: "key ?pre \<noteq> EXCEPTION_KEY"
    and k3: "key ?suf \<noteq> EXCEPTION_KEY"
    by (simp_all add: EXCEPTION_KEY_def)
  have s1: "to_exception_detail fake_runtime
              (Call (?c\<lparr>trailing_metadata := [] @ ?upper # [?ok, ?pre, ?suf]\<rparr>)
                 :: (unit, unit) rpc_exception)
            = to_exception_detail fake_runtime
              (Call (?c\<lparr>trailing_metadata := [] @ [?ok, ?pre, ?suf]\<rparr>))"
    by (rule non_matching_entry_ignored [OF k1])
  have s2: "to_exception_detail fake_runtime
              (Call (?c\<lparr>trailing_metadata := [?ok] @ ?pre # [?suf]\<rparr>)
                 :: (unit, unit) rpc_exception)
            = to_exception_detail fake_runtime
              (Call (?c\<lparr>trailing_metadata := [?ok] @ [?suf]\<rparr>))"
    by (rule non_matching_entry_ignored [OF k2])
  have s3: "to_exception_detail fake_runtime
              (Call (?c\<lparr>trailing_metadata := [?ok] @ ?suf # []\<rparr>)
                 :: (unit, unit) rpc_exception)
            = to_exception_detail fake_runtime
              (Call (?c\<lparr>trailing_metadata := [?ok] @ []\<rparr>))"
    by (rule non_matching_entry_ignored [OF k3])
  have "to_exception_detail fake_runtime (fake_call [?upper, ?ok, ?pre, ?suf])
          = to_exception_detail fake_runtime (fake_call [?ok, ?pre, ?suf])"
    using s1 by (simp add: fake_call_def)
  also have "\<dots> = to_exception_detail fake_runtime (fake_call [?ok, ?suf])"
    using s2 by (simp add: fake_call_def)
  also have "\<dots> = to_exception_detail fake_runtime (fake_call [?ok])"
    using s3 by (simp add: fake_call_def)
  finally have "to_exception_detail fake_runtime (fake_call [?upper, ?ok, ?pre, ?suf])
          = to_exception_detail fake_runtime (fake_call [?ok])" .
  moreover have "to_exception_detail fake_runtime (fake_call [?ok]) = Inr (Some [0x6F, 0x6B])"
    by (simp add: fake_simps)
  ultimately show ?thesis
    using k1 k2 k3 by simp
qed

section \<open>Several entries under the fixed key\<close>

text \<open>
  C4, as the specification states it: with two or more entries under the fixed key the
  outcome is the decode of the last one, and earlier ones have no say. The loop parses
  each matching value when it meets it, so an earlier value that does not parse ends the
  call before the last entry is looked at: here the outcome is the decode failure, while
  the last entry alone decodes.
\<close>

theorem last_entry_wins_counterexample:
  "2 \<le> length (matching [entry [0xFF], entry [0x0A, 0x78, 0x62, 0x6F, 0x6F, 0x6D]])
   \<and> last (matching [entry [0xFF], entry [0x0A, 0x78, 0x62, 0x6F, 0x6F, 0x6D]])
     = entry [0x0A, 0x78, 0x62, 0x6F, 0x6F, 0x6D]
   \<and> to_exception_detail fake_runtime
        (fake_call [entry [0xFF], entry [0x0A, 0x78, 0x62, 0x6F, 0x6F, 0x6D]])
     = Inl DecodeError
   \<and> to_exception_detail fake_runtime (fake_call [entry [0x0A, 0x78, 0x62, 0x6F, 0x6F, 0x6D]])
     = Inr (Some [0x62, 0x6F, 0x6F, 0x6D])"
  by (simp add: fake_simps)

text \<open>
  C4, amended: with two or more entries under the fixed key, all of which but possibly
  the last hold values that parse as an \<^verbatim>\<open>RpcErrorPayload\<close>, the outcome is the one the
  last matching entry gives alone.
\<close>

theorem last_entry_wins_when_earlier_parse:
  assumes "2 \<le> length (matching (trailing_metadata c))"
    and "\<forall>m \<in> set (butlast (matching (trailing_metadata c))).
           RpcErrorPayload_FromString rt (val m) \<noteq> None"
  shows "to_exception_detail rt (Call c) =
         to_exception_detail rt
           (Call (c\<lparr>trailing_metadata := [last (matching (trailing_metadata c))]\<rparr>))"
proof -
  let ?ms = "matching (trailing_metadata c)"
  have ne: "?ms \<noteq> []"
    using assms(1) by auto
  have split: "?ms = butlast ?ms @ [last ?ms]"
    using ne by simp
  have "scan_trailing_metadata rt None (trailing_metadata c) =
          scan_trailing_metadata rt None [last ?ms]"
    by (rule scan_last_alone [OF split assms(2)])
  then show ?thesis
    by (simp add: to_exception_detail_def)
qed

theorem last_entry_wins_when_earlier_parse_witness:
  "2 \<le> length (matching [entry [0x0A, 0x78, 0x61], \<lparr>key = ''via'', val = [0x31]\<rparr>,
                          entry [], entry [0x0A, 0x78, 0x7A]])
   \<and> butlast (matching [entry [0x0A, 0x78, 0x61], \<lparr>key = ''via'', val = [0x31]\<rparr>,
                         entry [], entry [0x0A, 0x78, 0x7A]])
     = [entry [0x0A, 0x78, 0x61], entry []]
   \<and> RpcErrorPayload_FromString fake_runtime (val (entry [0x0A, 0x78, 0x61])) \<noteq> None
   \<and> RpcErrorPayload_FromString fake_runtime (val (entry [])) \<noteq> None
   \<and> to_exception_detail fake_runtime
        (fake_call [entry [0x0A, 0x78, 0x61], \<lparr>key = ''via'', val = [0x31]\<rparr>,
                    entry [], entry [0x0A, 0x78, 0x7A]])
     = to_exception_detail fake_runtime (fake_call [entry [0x0A, 0x78, 0x7A]])
   \<and> to_exception_detail fake_runtime (fake_call [entry [0x0A, 0x78, 0x7A]])
     = Inr (Some [0x7A])"
proof -
  let ?a = "entry [0x0A, 0x78, 0x61]"
  let ?z = "entry [0x0A, 0x78, 0x7A]"
  let ?ms = "[?a, \<lparr>key = ''via'', val = [0x31]\<rparr>, entry [], ?z]"
  let ?c = "\<lparr>trailing_metadata = ?ms\<rparr>"
  have m: "matching ?ms = [?a, entry [], ?z]"
    by (simp add: matching_def entry_def EXCEPTION_KEY_def)
  have h1: "2 \<le> length (matching (trailing_metadata ?c))"
    using m by simp
  have p1: "RpcErrorPayload_FromString fake_runtime (val ?a) \<noteq> None"
    and p2: "RpcErrorPayload_FromString fake_runtime (val (entry [])) \<noteq> None"
    by (simp_all add: fake_runtime_def entry_def)
  have h2: "\<forall>m \<in> set (butlast (matching (trailing_metadata ?c))).
              RpcErrorPayload_FromString fake_runtime (val m) \<noteq> None"
    using m p1 p2 by simp
  have "to_exception_detail fake_runtime (Call ?c :: (unit, unit) rpc_exception) =
        to_exception_detail fake_runtime
          (Call (?c\<lparr>trailing_metadata := [last (matching (trailing_metadata ?c))]\<rparr>))"
    by (rule last_entry_wins_when_earlier_parse [OF h1 h2])
  then have "to_exception_detail fake_runtime (fake_call ?ms)
               = to_exception_detail fake_runtime (fake_call [?z])"
    using m by (simp add: fake_call_def)
  moreover have "to_exception_detail fake_runtime (fake_call [?z]) = Inr (Some [0x7A])"
    by (simp add: fake_simps)
  ultimately show ?thesis
    using m p1 p2 by simp
qed

text \<open>
  C5, as the specification states it: only the value of the last matching entry is
  parsed, once, after the scan, so that a malformed value under an earlier duplicate of
  the key followed by a well-formed last duplicate gives the decode of the last entry.
  The call to \<^verbatim>\<open>FromString\<close> stands inside the loop: the malformed earlier value is
  parsed, and the call ends with the decode failure.
\<close>

theorem parse_once_counterexample:
  "RpcErrorPayload_FromString fake_runtime (val (entry [0x12, 0x34])) = None
   \<and> to_exception_detail fake_runtime (fake_call [entry [0x0A, 0x78, 0x6F, 0x6F, 0x70, 0x73]])
     = Inr (Some [0x6F, 0x6F, 0x70, 0x73])
   \<and> to_exception_detail fake_runtime
        (fake_call [entry [0x12, 0x34], \<lparr>key = ''server'', val = [0x6E]\<rparr>,
                    entry [0x0A, 0x78, 0x6F, 0x6F, 0x70, 0x73]])
     = Inl DecodeError"
  by (simp add: fake_simps)

text \<open>
  C5, amended: the value of every entry under the fixed key is parsed as an
  \<^verbatim>\<open>RpcErrorPayload\<close> when the scan meets it. If one of them does not parse, the function
  raises the decode failure, whatever the other entries hold. Otherwise only the payload
  parsed from the last matching entry is kept, and the outcome is its decode (absent when
  no entry matches).
\<close>

theorem every_matching_entry_parsed:
  "to_exception_detail rt (Call c) =
     (if \<exists>m \<in> set (matching (trailing_metadata c)).
           RpcErrorPayload_FromString rt (val m) = None
      then Inl DecodeError
      else if matching (trailing_metadata c) = [] then Inr None
      else decode_error_info rt
             (RpcErrorPayload_FromString rt (val (last (matching (trailing_metadata c))))))"
proof (cases "\<exists>m \<in> set (matching (trailing_metadata c)).
                RpcErrorPayload_FromString rt (val m) = None")
  case True
  then obtain m where m: "m \<in> set (trailing_metadata c)" "key m = EXCEPTION_KEY"
      "RpcErrorPayload_FromString rt (val m) = None"
    by (auto simp: set_matching)
  have "scan_trailing_metadata rt None (trailing_metadata c) = Inl DecodeError"
    by (rule scan_parse_failure [OF m])
  then show ?thesis
    using True by (simp add: to_exception_detail_def)
next
  case False
  then have all: "\<forall>m \<in> set (trailing_metadata c).
      key m = EXCEPTION_KEY \<longrightarrow> RpcErrorPayload_FromString rt (val m) \<noteq> None"
    by (auto simp: set_matching)
  have "scan_trailing_metadata rt None (trailing_metadata c) =
          Inr (if matching (trailing_metadata c) = [] then None
               else RpcErrorPayload_FromString rt
                      (val (last (matching (trailing_metadata c)))))"
    by (rule scan_all_matching_parse [OF all])
  then have kept: "to_exception_detail rt (Call c) =
      (if matching (trailing_metadata c) = [] then Inr None
       else decode_error_info rt
              (RpcErrorPayload_FromString rt (val (last (matching (trailing_metadata c))))))"
    by (simp add: to_exception_detail_def decode_error_info_def)
  note none_fails = False
  show ?thesis
    by (simp only: none_fails if_False kept)
qed

theorem every_matching_entry_parsed_witness:
  "to_exception_detail fake_runtime
     (fake_call [entry [0x0A, 0x78, 0x31], entry [0x0A, 0x78, 0x32], entry [0x99],
                 entry [0x0A, 0x78, 0x33]])
   = Inl DecodeError
   \<and> to_exception_detail fake_runtime
       (fake_call [entry [0x0A, 0x78, 0x31], entry [0x0A, 0x78, 0x32]])
     = decode_error_info fake_runtime
         (RpcErrorPayload_FromString fake_runtime (val (entry [0x0A, 0x78, 0x32])))"
proof -
  let ?c1 = "\<lparr>trailing_metadata = [entry [0x0A, 0x78, 0x31], entry [0x0A, 0x78, 0x32],
                                   entry [0x99], entry [0x0A, 0x78, 0x33]]\<rparr>"
  let ?c2 = "\<lparr>trailing_metadata = [entry [0x0A, 0x78, 0x31], entry [0x0A, 0x78, 0x32]]\<rparr>"
  have a: "to_exception_detail fake_runtime (Call ?c1 :: (unit, unit) rpc_exception)
             = Inl DecodeError"
    using every_matching_entry_parsed [of fake_runtime ?c1]
    by (simp add: matching_def entry_def fake_runtime_def)
  have b: "to_exception_detail fake_runtime (Call ?c2 :: (unit, unit) rpc_exception)
             = decode_error_info fake_runtime
                 (RpcErrorPayload_FromString fake_runtime (val (entry [0x0A, 0x78, 0x32])))"
    using every_matching_entry_parsed [of fake_runtime ?c2]
    by (simp add: matching_def entry_def fake_runtime_def)
  show ?thesis
    using a b by (simp add: fake_call_def)
qed

section \<open>The default payload\<close>

text \<open>
  C10, as stated: if the value of the last matching entry parses to a default-valued
  payload, the empty byte string for one, the payload is falsy and the function returns
  \<^verbatim>\<open>None\<close> without attempting decompression. A parsed message is true in Python, the
  default one too: on the claim's own example the empty blob goes to
  \<^verbatim>\<open>zlib.decompress\<close>, which rejects it, and the call ends with the decompression
  failure. With an earlier entry under the key whose value does not parse, the call ends
  with the decode failure before the last entry is reached.
\<close>

theorem default_payload_counterexample:
  "RpcErrorPayload_FromString fake_runtime (val (entry [])) = Some default_RpcErrorPayload
   \<and> to_exception_detail fake_runtime (fake_call [entry []]) = Inl ZlibError
   \<and> last (matching [entry [0x80], entry []]) = entry []
   \<and> to_exception_detail fake_runtime (fake_call [entry [0x80], entry []]) = Inl DecodeError"
  by (simp add: fake_simps)

text \<open>
  C10, amended: if the value of every entry under the fixed key parses and the last of
  them parses to the default-valued payload (as the empty byte string does), the payload
  passes the truth test \<^verbatim>\<open>if error_info:\<close> like every parsed message, and the function
  hands its empty blob to \<^verbatim>\<open>zlib.decompress\<close>: the outcome is that of the decompression
  and of the parse of the exception detail, the decompression failure when
  \<^verbatim>\<open>zlib.decompress\<close> rejects the empty blob, and never \<^verbatim>\<open>None\<close>.
\<close>

theorem default_payload_is_decompressed:
  assumes "matching (trailing_metadata c) = earlier @ [m]"
    and "\<forall>x \<in> set earlier. RpcErrorPayload_FromString rt (val x) \<noteq> None"
    and "RpcErrorPayload_FromString rt (val m) = Some default_RpcErrorPayload"
    and "message_bool rt default_RpcErrorPayload"
  shows "to_exception_detail rt (Call c) =
           (case zlib_decompress rt [] of
              None \<Rightarrow> Inl ZlibError
            | Some raw \<Rightarrow>
                (case ExceptionDetail_FromString rt raw of
                   None \<Rightarrow> Inl DecodeError
                 | Some exception_detail \<Rightarrow> Inr (Some exception_detail)))
         \<and> (zlib_decompress rt [] = None \<longrightarrow> to_exception_detail rt (Call c) = Inl ZlibError)
         \<and> to_exception_detail rt (Call c) \<noteq> Inr None"
proof -
  have "scan_trailing_metadata rt None (trailing_metadata c) =
          scan_trailing_metadata rt None [m]"
    by (rule scan_last_alone [OF assms(1,2)])
  also have "\<dots> = Inr (Some default_RpcErrorPayload)"
    using last_matching_key [OF assms(1)] assms(3) by simp
  finally have kept: "scan_trailing_metadata rt None (trailing_metadata c) =
                        Inr (Some default_RpcErrorPayload)" .
  have blob: "compressed_data (compressed_exception_detail (rpc_error default_RpcErrorPayload))
                = []"
    by (simp add: default_RpcErrorPayload_def)
  have outcome: "to_exception_detail rt (Call c) =
           (case zlib_decompress rt [] of
              None \<Rightarrow> Inl ZlibError
            | Some raw \<Rightarrow>
                (case ExceptionDetail_FromString rt raw of
                   None \<Rightarrow> Inl DecodeError
                 | Some exception_detail \<Rightarrow> Inr (Some exception_detail)))"
    using kept assms(4) blob by (simp add: to_exception_detail_def decode_error_info_def)
  have failure: "zlib_decompress rt [] = None \<longrightarrow> to_exception_detail rt (Call c) = Inl ZlibError"
    by (simp add: outcome)
  have present: "to_exception_detail rt (Call c) \<noteq> Inr None"
    by (simp add: outcome split: option.splits)
  from outcome failure present show ?thesis
    by (intro conjI)
qed

theorem default_payload_is_decompressed_witness:
  "matching [entry [0x0A, 0x77], \<lparr>key = ''grpc-status'', val = [0x32]\<rparr>, entry []]
     = [entry [0x0A, 0x77]] @ [entry []]
   \<and> RpcErrorPayload_FromString fake_runtime (val (entry [0x0A, 0x77])) \<noteq> None
   \<and> RpcErrorPayload_FromString fake_runtime (val (entry [])) = Some default_RpcErrorPayload
   \<and> message_bool fake_runtime default_RpcErrorPayload
   \<and> zlib_decompress fake_runtime [] = None
   \<and> to_exception_detail fake_runtime
        (fake_call [entry [0x0A, 0x77], \<lparr>key = ''grpc-status'', val = [0x32]\<rparr>, entry []])
     = Inl ZlibError"
proof -
  let ?first = "entry [0x0A, 0x77]"
  let ?c = "\<lparr>trailing_metadata = [?first, \<lparr>key = ''grpc-status'', val = [0x32]\<rparr>, entry []]\<rparr>"
  have h1: "matching (trailing_metadata ?c) = [?first] @ [entry []]"
    by (simp add: matching_def entry_def EXCEPTION_KEY_def)
  have p1: "RpcErrorPayload_FromString fake_runtime (val ?first) \<noteq> None"
    by (simp add: fake_runtime_def entry_def)
  have h2: "\<forall>x \<in> set [?first]. RpcErrorPayload_FromString fake_runtime (val x) \<noteq> None"
    using p1 by simp
  have h3: "RpcErrorPayload_FromString fake_runtime (val (entry []))
              = Some default_RpcErrorPayload"
    by (simp add: fake_runtime_def entry_def fake_payload_def default_RpcErrorPayload_def)
  have h4: "message_bool fake_runtime default_RpcErrorPayload"
    by (simp add: fake_runtime_def)
  have z: "zlib_decompress fake_runtime [] = None"
    by (simp add: fake_runtime_def)
  have "zlib_decompress fake_runtime [] = None \<longrightarrow>
        to_exception_detail fake_runtime (Call ?c :: (unit, unit) rpc_exception) = Inl ZlibError"
    using default_payload_is_decompressed [OF h1 h2 h3 h4] by blast
  then have "to_exception_detail fake_runtime (Call ?c :: (unit, unit) rpc_exception)
               = Inl ZlibError"
    using z by simp
  then show ?thesis
    using h1 p1 h3 h4 z by (simp add: fake_call_def)
qed

end
